theory Spec2Isabelle
  imports Main
begin

section \<open>Values of the program\<close>

text \<open>
  The class \<open>Blockchain\<close> of \<^verbatim>\<open>src/blockchain.js\<close> keeps an array of blocks and a
  height, and every method returns a promise.  The model passes the object explicitly
  (a record, returned updated) and returns the state in which the promise is left once
  the method's code has run to the end.

  Strings are lists of 8-bit characters; the numbers the code compares are integers or
  \<open>NaN\<close>, the latter being \<open>None\<close> of \<open>int option\<close>.  Every current time the code can
  read is far below \<open>2 ^ 53\<close>, where the comparison of doubles at line 164 and the
  comparison of integers agree for every parsed operand.
\<close>

datatype error =
    BlockChainNotValid
  | FailedToAddNewBlock
  | MessageExpired
  | FailedMessageValidation
  | ErrorLog "string list"
  | Thrown string

text \<open>
  \<open>BlockChainNotValid\<close> is \<^verbatim>\<open>Error("Block chain not valid")\<close> (line 72),
  \<open>FailedToAddNewBlock\<close> is \<^verbatim>\<open>Error("Failed to add new block:")\<close> (line 98),
  \<open>MessageExpired\<close> is \<^verbatim>\<open>Error("Message Expired")\<close> (line 165),
  \<open>FailedMessageValidation\<close> is \<^verbatim>\<open>Error("Failed message validation.")\<close> (line 173),
  \<open>ErrorLog\<close> is the array \<^verbatim>\<open>errorLog\<close> with which \<^verbatim>\<open>validateChain\<close> rejects (line 294),
  and \<open>Thrown\<close> is an exception raised inside one of the libraries the file requires.
\<close>

datatype 'a promise = Resolved 'a | Rejected error | Pending

text \<open>
  A promise is settled once: a later \<^verbatim>\<open>resolve\<close> or \<^verbatim>\<open>reject\<close> on a settled promise
  has no effect.  \<open>settle p q\<close> is the promise \<open>p\<close> after a call that would settle it
  as \<open>q\<close>.
\<close>

definition settle :: "'a promise \<Rightarrow> 'a promise \<Rightarrow> 'a promise" where
  "settle p q = (if p = Pending then q else p)"

text \<open>
  The fields of a block, as the code reads and writes them (\<^verbatim>\<open>block.hash\<close>,
  \<^verbatim>\<open>block.height\<close>, \<^verbatim>\<open>block.time\<close>, \<^verbatim>\<open>block.previousBlockHash\<close>) and the encoded
  payload \<^verbatim>\<open>body\<close>; \<open>None\<close> is a field that has not been set.
\<close>

record block =
  hash :: "string option"
  height :: "nat option"
  body :: string
  time :: "string option"
  previousBlockHash :: "string option"

record blockchain =
  chain :: "block list"
  chainHeight :: int

section \<open>Numbers and strings of the host language\<close>

definition digit :: "nat \<Rightarrow> char" where
  "digit d = ''0123456789'' ! d"

fun digits :: "nat \<Rightarrow> string" where
  "digits n = (if n < 10 then [digit n] else digits (n div 10) @ [digit (n mod 10)])"

declare digits.simps [simp del]

text \<open>\<^verbatim>\<open>toString()\<close> of an integral number.\<close>

definition toString :: "int \<Rightarrow> string" where
  "toString i = (if i < 0 then CHR ''-'' # digits (nat (- i)) else digits (nat i))"

text \<open>
  \<^verbatim>\<open>new Date().getTime().toString().slice(0,-3)\<close> (lines 76, 131 and 161): the clock's
  milliseconds as a decimal string without its last three characters.  \<open>getTime\<close> is
  the value the clock returns.
\<close>

definition secondsText :: "int \<Rightarrow> string" where
  "secondsText getTime = (let s = toString getTime in take (length s - 3) s)"

text \<open>\<^verbatim>\<open>split\<close> of a string at a separator character: one field more than separators.\<close>

fun split :: "char \<Rightarrow> string \<Rightarrow> string list" where
  "split sep [] = [[]]"
| "split sep (c # cs) =
     (if c = sep then [] # split sep cs
      else (case split sep cs of [] \<Rightarrow> [[c]] | f # fs \<Rightarrow> (c # f) # fs))"

text \<open>
  \<^verbatim>\<open>parseInt\<close> with no radix, after the language standard: leading white space is
  dropped, then a sign, then \<^verbatim>\<open>0x\<close> or \<^verbatim>\<open>0X\<close> selects radix 16 (radix 10 otherwise), and
  the longest prefix of digits of that radix is the value; with no digit the result is
  \<open>NaN\<close>.
\<close>

definition isWhiteSpace :: "char \<Rightarrow> bool" where
  "isWhiteSpace c = (of_char c \<in> {9, 10, 11, 12, 13, 32, 160 :: nat})"

definition digitValue :: "char \<Rightarrow> nat option" where
  "digitValue c =
     (let n = of_char c :: nat
      in if 48 \<le> n \<and> n \<le> 57 then Some (n - 48)
         else if 97 \<le> n \<and> n \<le> 102 then Some (n - 87)
         else if 65 \<le> n \<and> n \<le> 70 then Some (n - 55)
         else None)"

fun radixDigits :: "nat \<Rightarrow> string \<Rightarrow> nat list" where
  "radixDigits R [] = []"
| "radixDigits R (c # cs) =
     (case digitValue c of
        None \<Rightarrow> []
      | Some d \<Rightarrow> if d < R then d # radixDigits R cs else [])"

definition radixValue :: "nat \<Rightarrow> nat list \<Rightarrow> nat" where
  "radixValue R Z = foldl (\<lambda>acc d. acc * R + d) 0 Z"

definition parseInt :: "string \<Rightarrow> int option" where
  "parseInt inputString =
     (let S = dropWhile isWhiteSpace inputString;
          sign = (if take 1 S = ''-'' then - 1 else 1 :: int);
          S1 = (if take 1 S = ''+'' \<or> take 1 S = ''-'' then drop 1 S else S);
          hex = (take 2 S1 = ''0x'' \<or> take 2 S1 = ''0X'');
          R = (if hex then 16 else 10);
          S2 = (if hex then drop 2 S1 else S1);
          Z = radixDigits R S2
      in if Z = [] then None else Some (sign * int (radixValue R Z)))"

text \<open>
  Arithmetic and comparison with \<open>NaN\<close>: a sum with \<open>NaN\<close> is \<open>NaN\<close>, and every
  comparison with \<open>NaN\<close> is false.
\<close>

definition js_add :: "int option \<Rightarrow> int \<Rightarrow> int option" where
  "js_add a k = (case a of None \<Rightarrow> None | Some x \<Rightarrow> Some (x + k))"

definition js_ge :: "int option \<Rightarrow> int option \<Rightarrow> bool" where
  "js_ge a b = (case a of None \<Rightarrow> False | Some x \<Rightarrow> (case b of None \<Rightarrow> False | Some y \<Rightarrow> y \<le> x))"

section \<open>Chain validation\<close>

text \<open>
  The loop of \<^verbatim>\<open>validateChain\<close> (lines 274 to 286), with the index and the error log as
  arguments.  \<open>validate\<close> is the method \<^verbatim>\<open>validate()\<close> of the block class, which lives in
  \<^verbatim>\<open>block.js\<close> and is taken as a parameter.
\<close>

function validateChain_loop ::
  "(block \<Rightarrow> bool) \<Rightarrow> block list \<Rightarrow> nat \<Rightarrow> string list \<Rightarrow> string list" where
  "validateChain_loop validate blocks i errorLog =
     (if i < length blocks then
        let previousBlock = blocks ! (i - 1);
            currentBlock = blocks ! i;
            errorLog1 = (if \<not> validate currentBlock
                         then errorLog @ [''Block '' @ toString (int i) @ '' validation failed.'']
                         else errorLog);
            errorLog2 = (if previousBlockHash currentBlock \<noteq> hash previousBlock
                         then errorLog1 @ [''Block '' @ toString (int i) @ '' previous hash invalid!'']
                         else errorLog1)
        in validateChain_loop validate blocks (i + 1) errorLog2
      else errorLog)"
  by pat_completeness auto
termination
  by (relation "measure (\<lambda>(validate, blocks, i, errorLog). length blocks - i)") auto

declare validateChain_loop.simps [simp del]

definition validateChain :: "(block \<Rightarrow> bool) \<Rightarrow> block list \<Rightarrow> bool promise" where
  "validateChain validate blocks =
     (if length blocks = 0 then Resolved True
      else
        let errorLog =
              (if length blocks = 1 then
                 (if \<not> validate (blocks ! 0) then [''Block 0 validation failed.''] else [])
               else validateChain_loop validate blocks 1 [])
        in if length errorLog = 0 then Resolved True else Rejected (ErrorLog errorLog))"

text \<open>
  The description of \<^verbatim>\<open>validate_chain\<close> in the specification, written down as it
  reads: the inconsistencies of one index, and the list of all of them in index order.
\<close>

definition inconsistencies :: "(block \<Rightarrow> bool) \<Rightarrow> block list \<Rightarrow> nat \<Rightarrow> string list" where
  "inconsistencies validate blocks i =
     (if validate (blocks ! i) then [] else [''Block '' @ toString (int i) @ '' validation failed.'']) @
     (if previousBlockHash (blocks ! i) = hash (blocks ! (i - 1)) then []
      else [''Block '' @ toString (int i) @ '' previous hash invalid!''])"

definition validate_chain_spec :: "(block \<Rightarrow> bool) \<Rightarrow> block list \<Rightarrow> bool promise" where
  "validate_chain_spec validate blocks =
     (let errors =
            (if length blocks = 1 then
               (if validate (blocks ! 0) then [] else [''Block 0 validation failed.''])
             else concat (map (inconsistencies validate blocks) [1..<length blocks]))
      in if errors = [] then Resolved True else Rejected (ErrorLog errors))"

section \<open>The block class\<close>

text \<open>
  The two objects from which the code makes a block: \<^verbatim>\<open>{data: 'Genesis Block'}\<close>
  (line 38) and \<^verbatim>\<open>{owner: address, star: star}\<close> (line 177).  The star is opaque.
\<close>

datatype 's data = GenesisData | StarData string 's

text \<open>
  Modelled from the spec: the constructor of the block class (\<^verbatim>\<open>block.js\<close>, not among
  the sources).  It "constructs a block with payload set, height, timestamp,
  previous hash and hash left unset".  The encoding of the payload is a parameter.
\<close>

definition Block :: "('s data \<Rightarrow> string) \<Rightarrow> 's data \<Rightarrow> block" where
  "Block encode d =
     \<lparr>hash = None, height = None, body = encode d, time = None, previousBlockHash = None\<rparr>"

text \<open>
  Modelled from the spec: recomputing the digest "over the block's fields excluding the
  stored hash", and the method \<^verbatim>\<open>validate()\<close> of the block class, which "returns whether
  it equals the stored hash".  \<open>sha\<close> is \<^verbatim>\<open>SHA256(JSON.stringify(block)).toString()\<close>
  as a function of the block's fields.
\<close>

definition recomputeHash :: "(block \<Rightarrow> string) \<Rightarrow> block \<Rightarrow> string" where
  "recomputeHash sha b = sha (b\<lparr>hash := None\<rparr>)"

definition Block_validate :: "(block \<Rightarrow> string) \<Rightarrow> block \<Rightarrow> bool" where
  "Block_validate sha b = (hash b = Some (recomputeHash sha b))"

section \<open>The ledger\<close>

definition getChainHeight :: "blockchain \<Rightarrow> int promise" where
  "getChainHeight self = Resolved (chainHeight self)"

definition getLatestBlock :: "blockchain \<Rightarrow> block option" where
  "getLatestBlock self =
     (let blockCount = length (chain self)
      in if blockCount > 0 then Some (chain self ! (blockCount - 1)) else None)"

text \<open>
  \<^verbatim>\<open>_addBlock\<close> (lines 64 to 101).  The executor of its promise is an asynchronous
  function that awaits \<^verbatim>\<open>validateChain()\<close> outside any \<^verbatim>\<open>try\<close>: when that promise is
  rejected the executor stops there, and neither \<^verbatim>\<open>resolve\<close> nor \<^verbatim>\<open>reject\<close> of the
  promise that \<^verbatim>\<open>_addBlock\<close> returned is ever called.  The \<^verbatim>\<open>reject\<close> at line 72 is not
  followed by a \<^verbatim>\<open>return\<close>.  \<open>getTime\<close> is the clock read at line 76, \<open>sha\<close> the digest
  of line 80.  The two methods whose names start with an underscore are \<open>addBlock\<close> and
  \<open>getLatestBlock\<close> here.
\<close>

definition addBlock ::
  "(block \<Rightarrow> bool) \<Rightarrow> (block \<Rightarrow> string) \<Rightarrow> int \<Rightarrow> blockchain \<Rightarrow> block
     \<Rightarrow> block promise \<times> blockchain" where
  "addBlock validate sha getTime self block0 =
     (case validateChain validate (chain self) of
        Pending \<Rightarrow> (Pending, self)
      | Rejected errorLog \<Rightarrow> (Pending, self)
      | Resolved valid \<Rightarrow>
          let p = (if \<not> valid then Rejected BlockChainNotValid else Pending);
              block1 = block0\<lparr>time := Some (secondsText getTime)\<rparr>;
              block2 = block1\<lparr>height := Some (length (chain self))\<rparr>;
              newHash = sha block2
          in if newHash \<noteq> [] then
               let block3 = block2\<lparr>hash := Some newHash\<rparr>
               in if length (chain self) > 0 then
                    (case getLatestBlock self of
                       None \<Rightarrow> (p, self)
                     | Some latest \<Rightarrow>
                         let block4 = block3\<lparr>previousBlockHash := hash latest\<rparr>;
                             chain' = chain self @ [block4]
                         in (settle p (Resolved block4),
                             self\<lparr>chain := chain', chainHeight := int (length chain')\<rparr>))
                  else
                    let chain' = chain self @ [block3]
                    in (settle p (Resolved block3),
                        self\<lparr>chain := chain', chainHeight := int (length chain')\<rparr>)
             else (settle p (Rejected FailedToAddNewBlock), self))"

text \<open>
  \<^verbatim>\<open>initializeChain\<close> (lines 36 to 41) and the constructor (lines 25 to 29); the state
  of the new object is taken once the initialisation it starts has run.
\<close>

definition initializeChain ::
  "(block \<Rightarrow> bool) \<Rightarrow> (block \<Rightarrow> string) \<Rightarrow> ('s data \<Rightarrow> string) \<Rightarrow> int \<Rightarrow> blockchain
     \<Rightarrow> unit promise \<times> blockchain" where
  "initializeChain validate sha encode getTime self =
     (if chainHeight self = - 1 then
        (case addBlock validate sha getTime self (Block encode GenesisData) of
           (Resolved b, self') \<Rightarrow> (Resolved (), self')
         | (Rejected e, self') \<Rightarrow> (Rejected e, self')
         | (Pending, self') \<Rightarrow> (Pending, self'))
      else (Resolved (), self))"

definition Blockchain ::
  "(block \<Rightarrow> bool) \<Rightarrow> (block \<Rightarrow> string) \<Rightarrow> ('s data \<Rightarrow> string) \<Rightarrow> int \<Rightarrow> blockchain" where
  "Blockchain validate sha encode getTime =
     snd (initializeChain validate sha encode getTime \<lparr>chain = [], chainHeight = - 1\<rparr>)"

definition getAllBlocks :: "blockchain \<Rightarrow> block list promise" where
  "getAllBlocks self = Resolved (chain self)"

section \<open>The registration handshake\<close>

definition requestMessageOwnershipVerification :: "int \<Rightarrow> string \<Rightarrow> string promise" where
  "requestMessageOwnershipVerification getTime address =
     (let timeText = secondsText getTime;
          message = address @ '':'' @ timeText @ '':starRegistry''
      in Resolved message)"

text \<open>
  \<^verbatim>\<open>parseInt(message.split(':')[1])\<close> (line 159); a missing second field is
  \<^verbatim>\<open>undefined\<close>, which \<^verbatim>\<open>parseInt\<close> reads as the string of that name.
\<close>

definition messageTime :: "string \<Rightarrow> int option" where
  "messageTime message =
     (let fields = split CHR '':'' message
      in parseInt (if 1 < length fields then fields ! 1 else ''undefined''))"

definition currentTime :: "int \<Rightarrow> int option" where
  "currentTime getTime = parseInt (secondsText getTime)"

text \<open>The condition of line 164.\<close>

definition expired :: "int \<Rightarrow> string \<Rightarrow> bool" where
  "expired getTime message = js_ge (currentTime getTime) (js_add (messageTime message) (5 * 60))"

text \<open>
  The \<^verbatim>\<open>try\<close> block of \<^verbatim>\<open>submitStar\<close> with its \<^verbatim>\<open>catch\<close> (lines 168 to 185), entered with
  the promise in state \<open>p\<close>.  \<open>verify\<close> is \<^verbatim>\<open>bitcoinMessage.verify\<close>, which returns a
  boolean or throws (\<open>Inl\<close>).  The \<^verbatim>\<open>reject\<close> at line 173 is not followed by a
  \<^verbatim>\<open>return\<close>.  \<open>getTime'\<close> is the clock as \<^verbatim>\<open>_addBlock\<close> reads it.
\<close>

definition verifyAndAdd ::
  "(block \<Rightarrow> bool) \<Rightarrow> (block \<Rightarrow> string) \<Rightarrow> ('s data \<Rightarrow> string)
     \<Rightarrow> (string \<Rightarrow> string \<Rightarrow> string \<Rightarrow> string + bool) \<Rightarrow> int
     \<Rightarrow> block promise \<Rightarrow> blockchain \<Rightarrow> string \<Rightarrow> string \<Rightarrow> string \<Rightarrow> 's
     \<Rightarrow> block promise \<times> blockchain" where
  "verifyAndAdd validate sha encode verify getTime' p self address message signature star =
     (case verify message address signature of
        Inl thrown \<Rightarrow> (settle p (Rejected (Thrown thrown)), self)
      | Inr isValid \<Rightarrow>
          let p1 = (if isValid = False then settle p (Rejected FailedMessageValidation) else p);
              block0 = Block encode (StarData address star)
          in (case addBlock validate sha getTime' self block0 of
                (Resolved newBlock, self') \<Rightarrow> (settle p1 (Resolved newBlock), self')
              | (Rejected e, self') \<Rightarrow> (settle p1 (Rejected e), self')
              | (Pending, self') \<Rightarrow> (p1, self')))"

text \<open>
  \<^verbatim>\<open>submitStar\<close> (lines 155 to 187).  The \<^verbatim>\<open>reject\<close> at line 165 is not followed by a
  \<^verbatim>\<open>return\<close>: the \<^verbatim>\<open>try\<close> block runs in either case.  \<open>getTime\<close> is the clock read at
  line 161.
\<close>

definition submitStar ::
  "(block \<Rightarrow> bool) \<Rightarrow> (block \<Rightarrow> string) \<Rightarrow> ('s data \<Rightarrow> string)
     \<Rightarrow> (string \<Rightarrow> string \<Rightarrow> string \<Rightarrow> string + bool) \<Rightarrow> int \<Rightarrow> int
     \<Rightarrow> blockchain \<Rightarrow> string \<Rightarrow> string \<Rightarrow> string \<Rightarrow> 's
     \<Rightarrow> block promise \<times> blockchain" where
  "submitStar validate sha encode verify getTime getTime' self address message signature star =
     (let p = (if expired getTime message then Rejected MessageExpired else Pending)
      in verifyAndAdd validate sha encode verify getTime' p self address message signature star)"

section \<open>Stars of a wallet\<close>

text \<open>
  The \<^verbatim>\<open>forEach\<close> of \<^verbatim>\<open>getStarsByWalletAddress\<close> (lines 236 to 247), with the array
  \<^verbatim>\<open>stars\<close> and the promise as arguments.  \<open>getBData\<close> is the decoding method of the
  block class (\<^verbatim>\<open>block.js\<close>), which returns the decoded object or throws (\<open>Inl\<close>), and
  \<open>owner\<close> reads the property \<^verbatim>\<open>owner\<close> of a decoded object (\<open>None\<close> when it has none).
  The \<^verbatim>\<open>reject\<close> in the \<^verbatim>\<open>catch\<close> does not leave the loop.
\<close>

fun forEach_star ::
  "(block \<Rightarrow> string + 'd) \<Rightarrow> ('d \<Rightarrow> string option) \<Rightarrow> string \<Rightarrow> block list
     \<Rightarrow> 'd list \<times> 'd list promise \<Rightarrow> 'd list \<times> 'd list promise" where
  "forEach_star getBData owner address [] (stars, p) = (stars, p)"
| "forEach_star getBData owner address (oneBlock # rest) (stars, p) =
     (case getBData oneBlock of
        Inr decodedBody \<Rightarrow>
          forEach_star getBData owner address rest
            (if owner decodedBody = Some address then stars @ [decodedBody] else stars, p)
      | Inl thrown \<Rightarrow>
          forEach_star getBData owner address rest (stars, settle p (Rejected (Thrown thrown))))"

definition getStarsByWalletAddress ::
  "(block \<Rightarrow> string + 'd) \<Rightarrow> ('d \<Rightarrow> string option) \<Rightarrow> blockchain \<Rightarrow> string
     \<Rightarrow> 'd list promise" where
  "getStarsByWalletAddress getBData owner self address =
     (case forEach_star getBData owner address (chain self) ([], Pending) of
        (stars, p) \<Rightarrow> settle p (Resolved stars))"

text \<open>
  The description of \<^verbatim>\<open>get_stars_by_wallet\<close> in the specification: the operation
  fails when the payload of any block fails to decode, and otherwise returns the decoded
  payloads whose owner is the address.
\<close>

definition get_stars_by_wallet_spec ::
  "(block \<Rightarrow> string + 'd) \<Rightarrow> ('d \<Rightarrow> string option) \<Rightarrow> block list \<Rightarrow> string
     \<Rightarrow> 'd list promise" where
  "get_stars_by_wallet_spec getBData owner blocks address =
     (case find (\<lambda>b. isl (getBData b)) blocks of
        Some corrupt \<Rightarrow> Rejected (Thrown (projl (getBData corrupt)))
      | None \<Rightarrow>
          Resolved (filter (\<lambda>decoded. owner decoded = Some address)
                      (map (\<lambda>b. projr (getBData b)) blocks)))"

section \<open>Reachable ledgers\<close>

text \<open>
  The calls that change a ledger: \<^verbatim>\<open>submitStar\<close>, \<^verbatim>\<open>initializeChain\<close>, and
  \<^verbatim>\<open>_addBlock\<close> with a block fresh from the constructor, as both of its callers pass
  it.  Each call runs to its end before the next one starts.  \<open>run\<close> is the ledger after
  a sequence of calls on a newly constructed object.
\<close>

datatype 's call =
    SubmitStar int int string string string 's
  | AddBlock int "'s data"
  | InitializeChain int

fun exec ::
  "(block \<Rightarrow> bool) \<Rightarrow> (block \<Rightarrow> string) \<Rightarrow> ('s data \<Rightarrow> string)
     \<Rightarrow> (string \<Rightarrow> string \<Rightarrow> string \<Rightarrow> string + bool)
     \<Rightarrow> blockchain \<Rightarrow> 's call \<Rightarrow> blockchain" where
  "exec validate sha encode verify self (SubmitStar getTime getTime' address message signature star) =
     snd (submitStar validate sha encode verify getTime getTime' self address message signature star)"
| "exec validate sha encode verify self (AddBlock getTime d) =
     snd (addBlock validate sha getTime self (Block encode d))"
| "exec validate sha encode verify self (InitializeChain getTime) =
     snd (initializeChain validate sha encode getTime self)"

definition run ::
  "(block \<Rightarrow> bool) \<Rightarrow> (block \<Rightarrow> string) \<Rightarrow> ('s data \<Rightarrow> string)
     \<Rightarrow> (string \<Rightarrow> string \<Rightarrow> string \<Rightarrow> string + bool)
     \<Rightarrow> int \<Rightarrow> 's call list \<Rightarrow> blockchain" where
  "run validate sha encode verify getTime calls =
     foldl (exec validate sha encode verify) (Blockchain validate sha encode getTime) calls"

text \<open>
  The linkage of a sequence of blocks, index by index: the height of a block is its
  index, the first block has no previous hash, and every later block carries the hash of
  the block before it.
\<close>

definition linked :: "block list \<Rightarrow> bool" where
  "linked blocks =
     list_all
       (\<lambda>i. height (blocks ! i) = Some i \<and>
            previousBlockHash (blocks ! i) = (if i = 0 then None else hash (blocks ! (i - 1))))
       [0..<length blocks]"

section \<open>Sample collaborators\<close>

text \<open>
  Instances of the parameters for the worked examples: a digest that writes the fields
  out one after the other (so that different blocks have different digests), the
  block's \<^verbatim>\<open>validate()\<close> over it, an encoding of the two payloads, and a signature
  check that accepts exactly the signature \<^verbatim>\<open>good\<close>, rejects \<^verbatim>\<open>bad\<close> and throws on
  anything else.
\<close>

definition show_field :: "string option \<Rightarrow> string" where
  "show_field v = (case v of None \<Rightarrow> ''null'' | Some s \<Rightarrow> ''<'' @ s @ ''>'')"

definition sample_sha :: "block \<Rightarrow> string" where
  "sample_sha b =
     ''{'' @ show_field (hash b) @ '','' @
     (case height b of None \<Rightarrow> ''null'' | Some h \<Rightarrow> toString (int h)) @ '','' @
     show_field (Some (body b)) @ '','' @ show_field (time b) @ '','' @ show_field (previousBlockHash b) @ ''}''"

definition sample_validate :: "block \<Rightarrow> bool" where
  "sample_validate = Block_validate sample_sha"

definition sample_encode :: "string data \<Rightarrow> string" where
  "sample_encode d = (case d of GenesisData \<Rightarrow> ''Genesis Block'' | StarData a s \<Rightarrow> a @ ''='' @ s)"

definition sample_verify :: "string \<Rightarrow> string \<Rightarrow> string \<Rightarrow> string + bool" where
  "sample_verify message address signature =
     (if signature = ''good'' then Inr True
      else if signature = ''bad'' then Inr False
      else Inl ''Invalid signature length'')"

text \<open>
  Worked examples: a new ledger, the challenge an address requests shortly after, the
  ledger after the star submitted with that challenge 100 seconds later, and the block
  that submission added.
\<close>

definition ledger1 :: blockchain where
  "ledger1 = Blockchain sample_validate sample_sha sample_encode 1700000000123"

definition challenge :: string where
  "challenge = ''A:1700000000:starRegistry''"

definition ledger2 :: blockchain where
  "ledger2 =
     snd (submitStar sample_validate sample_sha sample_encode sample_verify
            1700000100000 1700000100200 ledger1 ''A'' challenge ''good'' ''s1'')"

definition block1 :: block where
  "block1 = last (chain ledger2)"

section \<open>Chain validation: properties\<close>

lemma validateChain_loop_concat:
  "validateChain_loop validate blocks i errorLog =
     errorLog @ concat (map (inconsistencies validate blocks) [i..<length blocks])"
proof (induction validate blocks i errorLog rule: validateChain_loop.induct)
  case (1 validate blocks i errorLog)
  show ?case
  proof (cases "i < length blocks")
    case True
    then have range: "[i..<length blocks] = i # [i + 1..<length blocks]"
      by (simp add: upt_conv_Cons)
    have here: "inconsistencies validate blocks i =
        (if validate (blocks ! i) then [] else [''Block '' @ toString (int i) @ '' validation failed.'']) @
        (if previousBlockHash (blocks ! i) = hash (blocks ! (i - 1)) then []
         else [''Block '' @ toString (int i) @ '' previous hash invalid!''])"
      by (simp add: inconsistencies_def)
    show ?thesis
      using "1.IH" True
      by (subst validateChain_loop.simps)
        (simp add: range here Let_def)
  next
    case False
    then show ?thesis
      by (subst validateChain_loop.simps) simp
  qed
qed

text \<open>
  C6.  \<^verbatim>\<open>validateChain\<close> does what the specification says of \<^verbatim>\<open>validate_chain\<close>:
  an empty chain is valid, a chain of one block is valid exactly when that block's
  \<^verbatim>\<open>validate()\<close> passes, and a longer chain is walked from index 1 to the end, collecting
  for each index a description when \<^verbatim>\<open>validate()\<close> fails and a description when the
  previous hash differs from the hash of the block before; the promise resolves when
  nothing was collected and is rejected with the whole ordered list otherwise.
\<close>

theorem validateChain_meets_spec:
  "validateChain validate blocks = validate_chain_spec validate blocks"
  by (simp add: validateChain_def validate_chain_spec_def validateChain_loop_concat Let_def)

lemma validateChain_cases:
  "validateChain validate blocks = Resolved True \<or> (\<exists>errorLog. validateChain validate blocks = Rejected (ErrorLog errorLog))"
  by (simp add: validateChain_def Let_def)

section \<open>Appending a block: properties\<close>

lemma getLatestBlock_last:
  "chain self \<noteq> [] \<Longrightarrow> getLatestBlock self = Some (last (chain self))"
  by (simp add: getLatestBlock_def Let_def last_conv_nth)

text \<open>
  What \<^verbatim>\<open>_addBlock\<close> comes to: with a valid chain the block gets its time, its
  height, the digest of what it is at that moment, and only then the hash of the last
  block; with an invalid chain nothing happens at all.
\<close>

lemma addBlock_outcome:
  "addBlock validate sha getTime self block0 =
     (if validateChain validate (chain self) = Resolved True then
        (let block2 = block0\<lparr>time := Some (secondsText getTime), height := Some (length (chain self))\<rparr>
         in if sha block2 = [] then (Rejected FailedToAddNewBlock, self)
            else
              let block4 = block2\<lparr>hash := Some (sha block2),
                    previousBlockHash :=
                      (if chain self = [] then previousBlockHash block0 else hash (last (chain self)))\<rparr>
              in (Resolved block4,
                  self\<lparr>chain := chain self @ [block4], chainHeight := int (length (chain self)) + 1\<rparr>))
      else (Pending, self))"
proof -
  consider (ok) "validateChain validate (chain self) = Resolved True"
    | (bad) errorLog where "validateChain validate (chain self) = Rejected (ErrorLog errorLog)"
    using validateChain_cases by blast
  then show ?thesis
  proof cases
    case ok
    show ?thesis
    proof (cases "chain self = []")
      case True
      with ok show ?thesis
        by (simp add: addBlock_def settle_def Let_def)
    next
      case False
      with ok show ?thesis
        by (simp add: addBlock_def settle_def Let_def getLatestBlock_last)
    qed
  next
    case bad
    then show ?thesis
      by (simp add: addBlock_def)
  qed
qed

lemma addBlock_rejection:
  "fst (addBlock validate sha getTime self block0) = Rejected e \<Longrightarrow> e = FailedToAddNewBlock"
  by (simp add: addBlock_outcome Let_def split: if_splits)

lemma Blockchain_outcome:
  "Blockchain validate sha encode getTime =
     (let block2 = \<lparr>hash = None, height = Some 0, body = encode GenesisData,
                     time = Some (secondsText getTime), previousBlockHash = None\<rparr>
      in if sha block2 = [] then \<lparr>chain = [], chainHeight = - 1\<rparr>
         else \<lparr>chain = [block2\<lparr>hash := Some (sha block2)\<rparr>], chainHeight = 1\<rparr>)"
  by (simp add: Blockchain_def initializeChain_def addBlock_outcome validateChain_def Block_def Let_def)

text \<open>The genesis block, which has no previous hash, does carry a reproducible hash.\<close>

lemma genesis_hash_reproducible:
  assumes "chain (Blockchain validate sha encode getTime) = [genesis]"
  shows "hash genesis = Some (recomputeHash sha genesis)"
  using assms
  by (auto simp: Blockchain_outcome recomputeHash_def Let_def split: if_splits)

section \<open>The worked examples, evaluated\<close>

lemmas eval_simps =
  Blockchain_def initializeChain_def addBlock_def validateChain_def Block_def secondsText_def
  toString_def digits.simps digit_def sample_sha_def show_field_def sample_encode_def settle_def
  Let_def sample_validate_def Block_validate_def recomputeHash_def getLatestBlock_def
  validateChain_loop.simps submitStar_def verifyAndAdd_def expired_def currentTime_def
  messageTime_def parseInt_def isWhiteSpace_def digitValue_def radixValue_def js_add_def
  js_ge_def sample_verify_def challenge_def

lemma ledger1_eval:
  "ledger1 =
     \<lparr>chain =
        [\<lparr>hash = Some ''{null,0,<Genesis Block>,<1700000000>,null}'', height = Some 0,
          body = ''Genesis Block'', time = Some ''1700000000'', previousBlockHash = None\<rparr>],
      chainHeight = 1\<rparr>"
  by (simp add: ledger1_def eval_simps)

lemma ledger2_eval:
  "ledger2 =
     \<lparr>chain =
        [\<lparr>hash = Some ''{null,0,<Genesis Block>,<1700000000>,null}'', height = Some 0,
          body = ''Genesis Block'', time = Some ''1700000000'', previousBlockHash = None\<rparr>,
         \<lparr>hash = Some ''{null,1,<A=s1>,<1700000100>,null}'', height = Some 1,
          body = ''A=s1'', time = Some ''1700000100'',
          previousBlockHash = Some ''{null,0,<Genesis Block>,<1700000000>,null}''\<rparr>],
      chainHeight = 2\<rparr>"
  by (simp add: ledger2_def ledger1_eval eval_simps)

lemma block1_eval:
  "block1 =
     \<lparr>hash = Some ''{null,1,<A=s1>,<1700000100>,null}'', height = Some 1,
      body = ''A=s1'', time = Some ''1700000100'',
      previousBlockHash = Some ''{null,0,<Genesis Block>,<1700000000>,null}''\<rparr>"
  by (simp add: block1_def ledger2_eval)

lemma ledger1_valid: "validateChain sample_validate (chain ledger1) = Resolved True"
  by (simp add: ledger1_eval eval_simps)

lemma ledger2_invalid:
  "validateChain sample_validate (chain ledger2) = Rejected (ErrorLog [''Block 1 validation failed.''])"
  by (simp add: ledger2_eval eval_simps)

lemma addBlock_ledger1:
  "addBlock sample_validate sample_sha 1700000100200 ledger1 (Block sample_encode (StarData ''A'' ''s1''))
     = (Resolved block1, ledger2)"
  by (simp add: block1_eval ledger2_eval ledger1_eval eval_simps)

lemma run_ledger2:
  "run sample_validate sample_sha sample_encode sample_verify 1700000000123
     [SubmitStar 1700000100000 1700000100200 ''A'' challenge ''good'' ''s1''] = ledger2"
  by (simp add: run_def ledger2_def ledger1_def)

lemma challenge_time: "messageTime challenge = Some 1700000000"
  by (simp add: eval_simps)

lemma challenge_expired: "expired 1700000300000 challenge"
  by (simp add: eval_simps)

lemma sample_sha_nonempty: "\<forall>b. sample_sha b \<noteq> []"
  by (simp add: sample_sha_def)

section \<open>Claims about appending\<close>

text \<open>
  C5.  \<^verbatim>\<open>_addBlock\<close> validates the existing chain before it touches the block, and when
  that validation reports an inconsistency the block is not added and the ledger is as
  it was.  The promise it returned, however, is not rejected: the rejection of
  \<^verbatim>\<open>validateChain()\<close> is thrown at the \<^verbatim>\<open>await\<close> inside the executor, so the promise
  is never settled and the caller receives neither an error nor the error list.
\<close>

theorem addBlock_pending_on_invalid_chain:
  assumes "validateChain validate (chain self) = Rejected errorLog"
  shows "addBlock validate sha getTime self block0 = (Pending, self)"
  using assms by (simp add: addBlock_outcome)

text \<open>
  The ledger of two blocks that the code itself built is such a chain once
  \<^verbatim>\<open>validate()\<close> recomputes the digest: the third append never settles.
\<close>

theorem addBlock_pending_on_invalid_chain_witness:
  "validateChain sample_validate (chain ledger2) = Rejected (ErrorLog [''Block 1 validation failed.''])
   \<and> addBlock sample_validate sample_sha 1700000200000 ledger2 (Block sample_encode (StarData ''A'' ''s2''))
       = (Pending, ledger2)"
  using addBlock_pending_on_invalid_chain [OF ledger2_invalid] ledger2_invalid by simp

text \<open>
  C3.  After the genesis block has been added the height the ledger reports is 1, the
  length of the chain, and not 0, the index of its last block: line 92 stores
  \<^verbatim>\<open>this.chain.length\<close> after the push, while the constructor starts from \<open>- 1\<close> for the
  empty chain.
\<close>

theorem Blockchain_height_is_length:
  assumes "\<forall>b. sha b \<noteq> []"
  shows "length (chain (Blockchain validate sha encode getTime)) = 1
         \<and> getChainHeight (Blockchain validate sha encode getTime) = Resolved 1"
  using assms by (simp add: Blockchain_outcome getChainHeight_def Let_def)

theorem Blockchain_height_is_length_witness:
  "(\<forall>b. sample_sha b \<noteq> [])
   \<and> length (chain (Blockchain sample_validate sample_sha sample_encode 1700000000123)) = 1
   \<and> getChainHeight (Blockchain sample_validate sample_sha sample_encode 1700000000123) = Resolved 1"
  using Blockchain_height_is_length [OF sample_sha_nonempty, of sample_validate sample_encode 1700000000123]
    sample_sha_nonempty by simp

text \<open>
  C2.  The hash stored in a block that is appended to a non-empty chain is the digest
  of the block as it was before \<^verbatim>\<open>previousBlockHash\<close> was assigned (lines 80 to 88).
  Recomputing the digest over the final block, stored hash excluded, therefore
  reproduces the stored hash only if the digest does not tell the block with its
  previous hash from the block without it.
\<close>

theorem addBlock_hash_omits_previousBlockHash:
  assumes "addBlock validate sha getTime self (Block encode d) = (Resolved b, self')"
      and "chain self \<noteq> []"
  shows "hash b = Some (sha (b\<lparr>hash := None, previousBlockHash := None\<rparr>))
       \<and> previousBlockHash b = hash (last (chain self))
       \<and> chain self' = chain self @ [b]
       \<and> (hash b = Some (recomputeHash sha b)
            \<longleftrightarrow> sha (b\<lparr>hash := None\<rparr>) = sha (b\<lparr>hash := None, previousBlockHash := None\<rparr>))"
  using assms
  by (auto simp: addBlock_outcome Block_def recomputeHash_def Let_def split: if_splits)

theorem addBlock_hash_omits_previousBlockHash_witness:
  "addBlock sample_validate sample_sha 1700000100200 ledger1 (Block sample_encode (StarData ''A'' ''s1''))
     = (Resolved block1, ledger2)
   \<and> chain ledger1 \<noteq> []
   \<and> hash block1 = Some (sample_sha (block1\<lparr>hash := None, previousBlockHash := None\<rparr>))
   \<and> previousBlockHash block1 = hash (last (chain ledger1))
   \<and> hash block1 \<noteq> Some (recomputeHash sample_sha block1)"
proof -
  have nonempty: "chain ledger1 \<noteq> []"
    by (simp add: ledger1_eval)
  have distinct: "sample_sha (block1\<lparr>hash := None\<rparr>)
      \<noteq> sample_sha (block1\<lparr>hash := None, previousBlockHash := None\<rparr>)"
    by (simp add: block1_eval sample_sha_def show_field_def)
  show ?thesis
    using addBlock_hash_omits_previousBlockHash [OF addBlock_ledger1 nonempty] addBlock_ledger1
      nonempty distinct
    by (simp add: recomputeHash_def)
qed

section \<open>Linkage\<close>

lemma linked_iff:
  "linked blocks \<longleftrightarrow>
     (\<forall>i<length blocks. height (blocks ! i) = Some i \<and>
        previousBlockHash (blocks ! i) = (if i = 0 then None else hash (blocks ! (i - 1))))"
  by (auto simp: linked_def list_all_iff)

lemma linked_snoc:
  assumes "linked blocks"
      and "height b = Some (length blocks)"
      and "previousBlockHash b = (if blocks = [] then None else hash (last blocks))"
  shows "linked (blocks @ [b])"
  unfolding linked_iff
proof (intro allI impI)
  fix i
  assume "i < length (blocks @ [b])"
  then consider (old) "i < length blocks" | (new) "i = length blocks"
    by fastforce
  then show "height ((blocks @ [b]) ! i) = Some i \<and>
      previousBlockHash ((blocks @ [b]) ! i) = (if i = 0 then None else hash ((blocks @ [b]) ! (i - 1)))"
  proof cases
    case old
    then have "i - 1 < length blocks" by simp
    with old assms(1) show ?thesis
      by (simp add: linked_iff nth_append)
  next
    case new
    show ?thesis
    proof (cases "blocks = []")
      case True
      with new assms show ?thesis by simp
    next
      case False
      then have "(blocks @ [b]) ! (length blocks - 1) = last blocks"
        by (simp add: nth_append last_conv_nth)
      with new False assms show ?thesis by simp
    qed
  qed
qed

lemma addBlock_linked:
  assumes "linked (chain self)"
  shows "linked (chain (snd (addBlock validate sha getTime self (Block encode d))))"
  using assms
  by (simp add: addBlock_outcome Let_def Block_def linked_snoc)

lemma verifyAndAdd_state:
  "snd (verifyAndAdd validate sha encode verify getTime' p self address message signature star) = self
   \<or> snd (verifyAndAdd validate sha encode verify getTime' p self address message signature star)
       = snd (addBlock validate sha getTime' self (Block encode (StarData address star)))"
  by (simp add: verifyAndAdd_def Let_def split: sum.splits prod.splits promise.splits)

lemma exec_linked:
  assumes "linked (chain self)"
  shows "linked (chain (exec validate sha encode verify self c))"
proof (cases c)
  case (SubmitStar getTime getTime' address message signature star)
  define p :: "block promise"
    where "p = (if expired getTime message then Rejected MessageExpired else Pending)"
  have step: "exec validate sha encode verify self c
      = snd (verifyAndAdd validate sha encode verify getTime' p self address message signature star)"
    by (simp add: SubmitStar submitStar_def p_def)
  from verifyAndAdd_state [of validate sha encode verify getTime' p self address message signature star]
  show ?thesis
  proof
    assume "snd (verifyAndAdd validate sha encode verify getTime' p self address message signature star)
        = self"
    with step assms show ?thesis by simp
  next
    assume "snd (verifyAndAdd validate sha encode verify getTime' p self address message signature star)
        = snd (addBlock validate sha getTime' self (Block encode (StarData address star)))"
    with step addBlock_linked [OF assms] show ?thesis by simp
  qed
next
  case (AddBlock getTime d)
  then show ?thesis
    using addBlock_linked [OF assms] by simp
next
  case (InitializeChain getTime)
  then show ?thesis
    using assms addBlock_linked [OF assms, of validate sha getTime encode GenesisData]
    by (auto simp: initializeChain_def split: prod.splits promise.splits)
qed

lemma foldl_exec_linked:
  "linked (chain self) \<Longrightarrow> linked (chain (foldl (exec validate sha encode verify) self calls))"
  by (induction calls arbitrary: self) (simp_all add: exec_linked)

lemma Blockchain_linked: "linked (chain (Blockchain validate sha encode getTime))"
  by (simp add: Blockchain_outcome Let_def linked_def)

text \<open>
  C4.  In every ledger reached from a new object by calls of \<^verbatim>\<open>submitStar\<close>,
  \<^verbatim>\<open>initializeChain\<close> and \<^verbatim>\<open>_addBlock\<close>, every block's height is its index, the block
  at index 0 has no previous hash, and every block at an index \<open>i > 0\<close> carries the hash
  of the block at \<open>i - 1\<close> as its previous hash.
\<close>

theorem linkage_invariant:
  assumes "i < length (chain (run validate sha encode verify getTime calls))"
  shows "height (chain (run validate sha encode verify getTime calls) ! i) = Some i
       \<and> previousBlockHash (chain (run validate sha encode verify getTime calls) ! i)
           = (if i = 0 then None
              else hash (chain (run validate sha encode verify getTime calls) ! (i - 1)))"
proof -
  have "linked (chain (run validate sha encode verify getTime calls))"
    unfolding run_def by (rule foldl_exec_linked [OF Blockchain_linked])
  with assms show ?thesis
    by (simp add: linked_iff)
qed

theorem linkage_invariant_witness:
  "1 < length (chain (run sample_validate sample_sha sample_encode sample_verify 1700000000123
          [SubmitStar 1700000100000 1700000100200 ''A'' challenge ''good'' ''s1'']))
   \<and> height (chain (run sample_validate sample_sha sample_encode sample_verify 1700000000123
          [SubmitStar 1700000100000 1700000100200 ''A'' challenge ''good'' ''s1'']) ! 1) = Some 1
   \<and> previousBlockHash (chain (run sample_validate sample_sha sample_encode sample_verify 1700000000123
          [SubmitStar 1700000100000 1700000100200 ''A'' challenge ''good'' ''s1'']) ! 1)
       = Some ''{null,0,<Genesis Block>,<1700000000>,null}''"
proof -
  have len: "1 < length (chain (run sample_validate sample_sha sample_encode sample_verify 1700000000123
          [SubmitStar 1700000100000 1700000100200 ''A'' challenge ''good'' ''s1'']))"
    by (simp add: run_ledger2 ledger2_eval)
  show ?thesis
    using linkage_invariant [OF len] len
    by (simp add: run_ledger2 ledger2_eval)
qed

section \<open>Decimal strings\<close>

lemma below_ten_cases:
  assumes "d < (10::nat)"
  obtains "d = 0" | "d = 1" | "d = 2" | "d = 3" | "d = 4" | "d = 5" | "d = 6" | "d = 7" | "d = 8" | "d = 9"
proof -
  have "d = 0 \<or> d = 1 \<or> d = 2 \<or> d = 3 \<or> d = 4 \<or> d = 5 \<or> d = 6 \<or> d = 7 \<or> d = 8 \<or> d = 9"
    using assms by arith
  then show thesis
    using that by blast
qed

lemma digitValue_digit: "d < 10 \<Longrightarrow> digitValue (digit d) = Some d"
  by (erule below_ten_cases) (simp_all add: digit_def digitValue_def)

lemma digit_decimal: "d < 10 \<Longrightarrow> digit d \<in> set ''0123456789''"
  by (erule below_ten_cases) (simp_all add: digit_def)

lemma digits_decimal: "set (digits n) \<subseteq> set ''0123456789''"
proof (induction n rule: digits.induct)
  case (1 n)
  show ?case
  proof (cases "n < 10")
    case True
    then show ?thesis
      using digit_decimal [of n] by (subst digits.simps) simp
  next
    case False
    then show ?thesis
      using "1.IH" digit_decimal [of "n mod 10"] by (subst digits.simps) simp
  qed
qed

lemma digits_nonempty: "digits n \<noteq> []"
  by (subst digits.simps) simp

lemma decimal_digitValue:
  "c \<in> set ''0123456789'' \<Longrightarrow> \<exists>d<10. digitValue c = Some d"
  by (auto simp: digitValue_def)

lemma decimal_not_space: "c \<in> set ''0123456789'' \<Longrightarrow> \<not> isWhiteSpace c"
  by (auto simp: isWhiteSpace_def)

lemma radixDigits_append:
  "set s \<subseteq> set ''0123456789'' \<Longrightarrow> radixDigits 10 (s @ t) = radixDigits 10 s @ radixDigits 10 t"
proof (induction s)
  case Nil
  then show ?case by simp
next
  case (Cons c s)
  then obtain d where "d < 10" "digitValue c = Some d"
    using decimal_digitValue [of c] by auto
  with Cons show ?case by simp
qed

lemma radixValue_snoc: "radixValue R (Z @ [d]) = radixValue R Z * R + d"
  by (simp add: radixValue_def)

lemma radixValue_digits: "radixValue 10 (radixDigits 10 (digits n)) = n"
proof (induction n rule: digits.induct)
  case (1 n)
  show ?case
  proof (cases "n < 10")
    case True
    then show ?thesis
      by (subst digits.simps) (simp add: digitValue_digit radixValue_def)
  next
    case False
    then have "radixValue 10 (radixDigits 10 (digits n)) = radixValue 10 (radixDigits 10 (digits (n div 10))) * 10 + n mod 10"
      by (subst digits.simps)
        (simp add: radixDigits_append [OF digits_decimal] digitValue_digit radixValue_snoc)
    with False "1.IH" show ?thesis by simp
  qed
qed

lemma radixDigits_digits_nonempty: "radixDigits 10 (digits n) \<noteq> []"
proof -
  obtain c cs where split: "digits n = c # cs"
    using digits_nonempty [of n] by (cases "digits n") auto
  then have "c \<in> set ''0123456789''"
    using digits_decimal [of n] by auto
  then obtain d where "d < 10" "digitValue c = Some d"
    using decimal_digitValue by blast
  with split show ?thesis by simp
qed

lemma parseInt_digits: "parseInt (digits n) = Some (int n)"
proof -
  obtain c cs where split: "digits n = c # cs"
    using digits_nonempty [of n] by (cases "digits n") auto
  then have c: "c \<in> set ''0123456789''" and cs: "set cs \<subseteq> set ''0123456789''"
    using digits_decimal [of n] by auto
  have ws: "dropWhile isWhiteSpace (digits n) = digits n"
    using split decimal_not_space [OF c] by simp
  have sign: "take 1 (digits n) \<noteq> ''-''" "take 1 (digits n) \<noteq> ''+''"
    using split c by auto
  have hex: "take 2 (digits n) \<noteq> ''0x''" "take 2 (digits n) \<noteq> ''0X''"
    using split cs by (cases cs; auto)+
  show ?thesis
    unfolding parseInt_def Let_def ws
    using sign hex by (simp add: radixDigits_digits_nonempty radixValue_digits)
qed

lemma digits_thousand:
  assumes "1000 \<le> n"
  shows "\<exists>a b c. digits n = digits (n div 1000) @ [a, b, c]"
proof -
  have big: "\<not> n < 10" "\<not> n div 10 < 10" "\<not> n div 10 div 10 < 10"
    using assms by arith+
  have "digits n = digits (n div 10) @ [digit (n mod 10)]"
    by (subst digits.simps) (simp only: big if_False)
  moreover have "digits (n div 10) = digits (n div 10 div 10) @ [digit (n div 10 mod 10)]"
    by (subst digits.simps) (simp only: big if_False)
  moreover have "digits (n div 10 div 10) = digits (n div 10 div 10 div 10) @ [digit (n div 10 div 10 mod 10)]"
    by (subst digits.simps) (simp only: big if_False)
  moreover have "n div 10 div 10 div 10 = n div 1000"
    by (simp add: div_mult2_eq [symmetric])
  ultimately show ?thesis by simp
qed

lemma secondsText_seconds:
  assumes "1000 \<le> getTime"
  shows "secondsText getTime = toString (getTime div 1000)"
proof -
  have n: "1000 \<le> nat getTime" using assms by simp
  obtain a b c where "digits (nat getTime) = digits (nat getTime div 1000) @ [a, b, c]"
    using digits_thousand [OF n] by blast
  moreover have "nat getTime div 1000 = nat (getTime div 1000)"
    using assms by (simp add: nat_div_distrib)
  ultimately show ?thesis
    using assms by (simp add: secondsText_def toString_def Let_def)
qed

lemma currentTime_seconds:
  assumes "1000 \<le> getTime"
  shows "currentTime getTime = Some (getTime div 1000)"
proof -
  have "0 \<le> getTime div 1000" using assms by simp
  then show ?thesis
    using assms by (simp add: currentTime_def secondsText_seconds toString_def parseInt_digits)
qed

section \<open>Claims about the handshake\<close>

text \<open>
  C9.  With a clock at least one second past the epoch, as every present clock is,
  \<^verbatim>\<open>requestMessageOwnershipVerification\<close> resolves with exactly the address, a colon,
  the current time in whole seconds, a colon and the tag \<^verbatim>\<open>starRegistry\<close>.  It has no
  other outcome, and the result is a function of the clock and the address alone.
\<close>

theorem requestMessageOwnershipVerification_layout:
  assumes "1000 \<le> getTime"
  shows "requestMessageOwnershipVerification getTime address
           = Resolved (address @ '':'' @ toString (getTime div 1000) @ '':starRegistry'')"
  using assms by (simp add: requestMessageOwnershipVerification_def secondsText_seconds)

theorem requestMessageOwnershipVerification_layout_witness:
  "(1000::int) \<le> 1700000000123
   \<and> requestMessageOwnershipVerification 1700000000123 ''A'' = Resolved ''A:1700000000:starRegistry''"
  using requestMessageOwnershipVerification_layout [of 1700000000123 "''A''"]
  by (simp add: toString_def digits.simps digit_def)

lemma verifyAndAdd_settled:
  "p \<noteq> Pending \<Longrightarrow>
     fst (verifyAndAdd validate sha encode verify getTime' p self address message signature star) = p"
  by (simp add: verifyAndAdd_def settle_def Let_def split: sum.splits prod.splits promise.splits)

lemma verifyAndAdd_no_expiry:
  "fst (verifyAndAdd validate sha encode verify getTime' Pending self address message signature star)
     \<noteq> Rejected MessageExpired"
proof
  assume rejected:
    "fst (verifyAndAdd validate sha encode verify getTime' Pending self address message signature star)
       = Rejected MessageExpired"
  show False
  proof (cases "verify message address signature")
    case (Inl thrown)
    with rejected show False
      by (simp add: verifyAndAdd_def settle_def)
  next
    case (Inr isValid)
    show False
    proof (cases isValid)
      case False
      with Inr rejected show False
        by (simp add: verifyAndAdd_def settle_def Let_def split: prod.splits promise.splits)
    next
      case True
      obtain r self' where add:
        "addBlock validate sha getTime' self (Block encode (StarData address star)) = (r, self')"
        by (cases "addBlock validate sha getTime' self (Block encode (StarData address star))")
      with Inr True rejected have "r = Rejected MessageExpired"
        by (simp add: verifyAndAdd_def settle_def Let_def split: promise.splits)
      then show False
        using addBlock_rejection [of validate sha getTime' self "Block encode (StarData address star)" MessageExpired] add
        by simp
    qed
  qed
qed

text \<open>
  C10.  When the second colon-delimited field of the message does not parse as an
  integer, the comparison of line 164 is false whatever the clock says: the promise is
  not rejected as expired at that point or later, and \<^verbatim>\<open>submitStar\<close> is the \<^verbatim>\<open>try\<close>
  block with its signature verification, entered with the promise still pending.
\<close>

theorem submitStar_NaN_never_expires:
  assumes "messageTime message = None"
  shows "\<not> expired getTime message
       \<and> submitStar validate sha encode verify getTime getTime' self address message signature star
           = verifyAndAdd validate sha encode verify getTime' Pending self address message signature star
       \<and> fst (submitStar validate sha encode verify getTime getTime' self address message signature star)
           \<noteq> Rejected MessageExpired"
  using assms verifyAndAdd_no_expiry [of validate sha encode verify getTime' self address message signature star]
  by (simp add: submitStar_def expired_def js_add_def js_ge_def split: option.splits)

theorem submitStar_NaN_never_expires_witness:
  "messageTime ''no timestamp'' = None
   \<and> messageTime ''A:soon:starRegistry'' = None
   \<and> \<not> expired 1700000300000 ''A:soon:starRegistry''
   \<and> fst (submitStar sample_validate sample_sha sample_encode sample_verify 1700000300000 1700000300200
             ledger1 ''A'' ''A:soon:starRegistry'' ''bad'' ''s1'') = Rejected FailedMessageValidation"
proof -
  have nan: "messageTime ''A:soon:starRegistry'' = None"
    by (simp add: eval_simps)
  have "fst (verifyAndAdd sample_validate sample_sha sample_encode sample_verify 1700000300200 Pending
             ledger1 ''A'' ''A:soon:starRegistry'' ''bad'' ''s1'') = Rejected FailedMessageValidation"
    by (cases "addBlock sample_validate sample_sha 1700000300200 ledger1
          (Block sample_encode (StarData ''A'' ''s1''))")
      (simp add: verifyAndAdd_def sample_verify_def settle_def Let_def split: promise.splits)
  moreover have "messageTime ''no timestamp'' = None"
    by (simp add: eval_simps)
  ultimately show ?thesis
    using submitStar_NaN_never_expires [OF nan, of 1700000300000 sample_validate sample_sha sample_encode
        sample_verify 1700000300200 ledger1 "''A''" "''bad''" "''s1''"] nan
    by simp
qed

text \<open>
  C7.  For a message whose embedded timestamp parses, \<^verbatim>\<open>submitStar\<close> is rejected as
  expired exactly from 300 seconds on: when the current time in seconds is 300 or more
  past the timestamp the promise is rejected with the expiry error, and when it is less
  (299 at most) the check passes and \<^verbatim>\<open>submitStar\<close> is the \<^verbatim>\<open>try\<close> block with its
  signature verification, entered with the promise still pending.
\<close>

theorem submitStar_expiry_boundary:
  assumes "1000 \<le> getTime" and "messageTime message = Some t"
  shows "(300 \<le> getTime div 1000 - t \<longrightarrow>
            fst (submitStar validate sha encode verify getTime getTime' self address message signature star)
              = Rejected MessageExpired)
       \<and> (getTime div 1000 - t < 300 \<longrightarrow>
            submitStar validate sha encode verify getTime getTime' self address message signature star
              = verifyAndAdd validate sha encode verify getTime' Pending self address message signature star
            \<and> fst (submitStar validate sha encode verify getTime getTime' self address message signature star)
                \<noteq> Rejected MessageExpired)"
proof -
  have check: "expired getTime message \<longleftrightarrow> 300 \<le> getTime div 1000 - t"
    using assms by (auto simp: expired_def currentTime_seconds js_add_def js_ge_def)
  show ?thesis
    using verifyAndAdd_no_expiry [of validate sha encode verify getTime' self address message signature star]
    by (simp add: submitStar_def check verifyAndAdd_settled)
qed

theorem submitStar_expiry_boundary_witness:
  "messageTime challenge = Some 1700000000
   \<and> fst (submitStar sample_validate sample_sha sample_encode sample_verify 1700000300000 1700000300200
             ledger1 ''A'' challenge ''good'' ''s1'') = Rejected MessageExpired
   \<and> submitStar sample_validate sample_sha sample_encode sample_verify 1700000299999 1700000300200
         ledger1 ''A'' challenge ''good'' ''s1''
       = verifyAndAdd sample_validate sample_sha sample_encode sample_verify 1700000300200 Pending
           ledger1 ''A'' challenge ''good'' ''s1''"
proof -
  have at300: "(1000::int) \<le> 1700000300000" and at299: "(1000::int) \<le> 1700000299999"
    by simp_all
  show ?thesis
    using submitStar_expiry_boundary [OF at300 challenge_time, of sample_validate sample_sha sample_encode
        sample_verify 1700000300200 ledger1 "''A''" "''good''" "''s1''"]
      submitStar_expiry_boundary [OF at299 challenge_time, of sample_validate sample_sha sample_encode
        sample_verify 1700000300200 ledger1 "''A''" "''good''" "''s1''"]
      challenge_time
    by simp
qed

text \<open>
  C1.  A call of \<^verbatim>\<open>submitStar\<close> whose promise is rejected because the challenge has
  expired or because the signature check returned false still appends a block: neither
  \<^verbatim>\<open>reject\<close> is followed by a \<^verbatim>\<open>return\<close>, so with a valid chain the block is created
  and added, and the height changes.
\<close>

theorem submitStar_rejected_yet_appended:
  assumes "verify message address signature = Inr isValid"
      and "expired getTime message \<or> \<not> isValid"
      and "validateChain validate (chain self) = Resolved True"
      and "\<forall>b. sha b \<noteq> []"
  shows "fst (submitStar validate sha encode verify getTime getTime' self address message signature star)
           = Rejected (if expired getTime message then MessageExpired else FailedMessageValidation)
       \<and> length (chain (snd (submitStar validate sha encode verify getTime getTime' self address message
             signature star))) = length (chain self) + 1
       \<and> getChainHeight (snd (submitStar validate sha encode verify getTime getTime' self address message
             signature star)) = Resolved (int (length (chain self)) + 1)"
  using assms
  by (auto simp: submitStar_def verifyAndAdd_def addBlock_outcome settle_def getChainHeight_def Let_def)

theorem submitStar_rejected_yet_appended_witness:
  "sample_verify challenge ''A'' ''bad'' = Inr False
   \<and> expired 1700000300000 challenge
   \<and> validateChain sample_validate (chain ledger1) = Resolved True
   \<and> getChainHeight ledger1 = Resolved 1
   \<and> fst (submitStar sample_validate sample_sha sample_encode sample_verify 1700000300000 1700000300200
             ledger1 ''A'' challenge ''bad'' ''s1'') = Rejected MessageExpired
   \<and> length (chain (snd (submitStar sample_validate sample_sha sample_encode sample_verify 1700000300000
             1700000300200 ledger1 ''A'' challenge ''bad'' ''s1''))) = 2
   \<and> getChainHeight (snd (submitStar sample_validate sample_sha sample_encode sample_verify 1700000300000
             1700000300200 ledger1 ''A'' challenge ''bad'' ''s1'')) = Resolved 2"
proof -
  have bad: "sample_verify challenge ''A'' ''bad'' = Inr False"
    by (simp add: sample_verify_def)
  have late: "expired 1700000300000 challenge \<or> \<not> False"
    by simp
  have one: "length (chain ledger1) = 1" "getChainHeight ledger1 = Resolved 1"
    by (simp_all add: ledger1_eval getChainHeight_def)
  show ?thesis
    using submitStar_rejected_yet_appended [where verify = sample_verify and message = challenge
        and address = "''A''" and signature = "''bad''" and isValid = False
        and getTime = 1700000300000 and validate = sample_validate and self = ledger1
        and sha = sample_sha and encode = sample_encode and getTime' = 1700000300200
        and star = "''s1''"]
      bad late challenge_expired ledger1_valid sample_sha_nonempty one
    by simp
qed

section \<open>Stars of a wallet: properties\<close>

lemma forEach_star_result:
  "forEach_star getBData owner address blocks (stars, p) =
     (stars @ concat (map (\<lambda>b. case getBData b of
                                  Inl thrown \<Rightarrow> []
                                | Inr decoded \<Rightarrow> if owner decoded = Some address then [decoded] else [])
                        blocks),
      case find (\<lambda>b. isl (getBData b)) blocks of
        None \<Rightarrow> p
      | Some corrupt \<Rightarrow> settle p (Rejected (Thrown (projl (getBData corrupt)))))"
proof (induction blocks arbitrary: stars p)
  case Nil
  then show ?case by simp
next
  case (Cons oneBlock rest)
  show ?case
  proof (cases "getBData oneBlock")
    case (Inl thrown)
    then show ?thesis
      by (simp add: Cons.IH settle_def split: option.splits)
  next
    case (Inr decodedBody)
    then show ?thesis
      by (simp add: Cons.IH)
  qed
qed

lemma all_decoded_owned:
  "find (\<lambda>b. isl (getBData b)) blocks = None \<Longrightarrow>
     concat (map (\<lambda>b. case getBData b of
                         Inl thrown \<Rightarrow> []
                       | Inr decoded \<Rightarrow> if owner decoded = Some address then [decoded] else [])
               blocks)
     = filter (\<lambda>decoded. owner decoded = Some address) (map (\<lambda>b. projr (getBData b)) blocks)"
proof (induction blocks)
  case Nil
  then show ?case by simp
next
  case (Cons b blocks)
  then show ?case
    by (cases "getBData b") (simp_all split: if_splits)
qed

text \<open>
  C8.  \<^verbatim>\<open>getStarsByWalletAddress\<close> goes through every block of the chain; when the
  payload of some block fails to decode, the promise is rejected with the error of the
  first such block instead of leaving that block out, and when every payload decodes it
  resolves with exactly the decoded payloads whose owner is the address, in chain order.
\<close>

theorem getStarsByWalletAddress_meets_spec:
  "getStarsByWalletAddress getBData owner self address
     = get_stars_by_wallet_spec getBData owner (chain self) address"
proof (cases "find (\<lambda>b. isl (getBData b)) (chain self)")
  case None
  then show ?thesis
    by (simp add: getStarsByWalletAddress_def get_stars_by_wallet_spec_def forEach_star_result
        all_decoded_owned settle_def)
next
  case (Some corrupt)
  then show ?thesis
    by (simp add: getStarsByWalletAddress_def get_stars_by_wallet_spec_def forEach_star_result
        settle_def)
qed

end
